theory Spec2Isabelle
  imports Main
begin

section \<open>The world the operations run in\<close>

text \<open>
  The operations of \<^verbatim>\<open>IAtePDFs.py\<close> and \<^verbatim>\<open>gtk4IatePDFs.py\<close> read and write PDF
  files through the pypdf library. A parsed document is its sequence of pages (of an abstract
  type \<open>'p\<close>), the \<^verbatim>\<open>is_encrypted\<close> attribute of the reader, and whether the reader could
  decrypt it with the empty password when it was constructed (pypdf tries that by itself;
  the pages of an encrypted document that was not decrypted cannot be accessed).
\<close>

type_synonym path = string

record 'p document =
  pages :: "'p list"
  is_encrypted :: bool
  decrypted :: bool

datatype 'p content = Pdf "'p document" | Other string

text \<open>
  The file system: the files (a file that pypdf cannot parse is \<open>Other m\<close>, with the parser's
  message \<open>m\<close>), the directories, and the paths \<open>denied\<close> at which opening a file for writing
  or creating a directory fails, for whatever reason: no permission, a parent directory
  that is missing or cannot be made, a directory of that name, the empty path.
\<close>

record 'p fs =
  files :: "path \<rightharpoonup> 'p content"
  dirs :: "path set"
  denied :: "path set"

text \<open>The exceptions the operations can meet, and \<^verbatim>\<open>str(e)\<close> (quoting of paths as Python's
  \<^verbatim>\<open>repr\<close> does it for plain paths).\<close>

datatype exc =
    IndexError
  | FileNotDecryptedError
  | PdfReadError string
  | FileNotFoundError path
  | PermissionError path
  | FileExistsError path
  | AttributeError string

fun str_exc :: "exc \<Rightarrow> string" where
  "str_exc IndexError = ''Sequence index out of range''"
| "str_exc FileNotDecryptedError = ''File has not been decrypted''"
| "str_exc (PdfReadError m) = m"
| "str_exc (FileNotFoundError p) = ''[Errno 2] No such file or directory: '' @ [CHR 0x27] @ p @ [CHR 0x27]"
| "str_exc (PermissionError p) = ''[Errno 13] Permission denied: '' @ [CHR 0x27] @ p @ [CHR 0x27]"
| "str_exc (FileExistsError p) = ''[Errno 17] File exists: '' @ [CHR 0x27] @ p @ [CHR 0x27]"
| "str_exc (AttributeError m) = m"

text \<open>\<^verbatim>\<open>PdfReader(path)\<close>: the file is read whole when the reader is made, so the reader
  does not change when the file is overwritten later.\<close>

definition PdfReader :: "'p fs \<Rightarrow> path \<Rightarrow> exc + 'p document" where
  "PdfReader fs p =
     (case files fs p of
        None \<Rightarrow> Inl (FileNotFoundError p)
      | Some (Other m) \<Rightarrow> Inl (PdfReadError m)
      | Some (Pdf d) \<Rightarrow> Inr d)"

text \<open>\<^verbatim>\<open>reader.pages\<close>, as far as its length or an element is asked for.\<close>

definition reader_pages :: "'p document \<Rightarrow> exc + 'p list" where
  "reader_pages d =
     (if is_encrypted d \<and> \<not> decrypted d then Inl FileNotDecryptedError else Inr (pages d))"

text \<open>\<^verbatim>\<open>reader.pages[index]\<close>: a negative index counts from the end, an index out of range
  raises \<^verbatim>\<open>IndexError\<close>.\<close>

definition getitem :: "'p document \<Rightarrow> int \<Rightarrow> exc + 'p" where
  "getitem d i =
     (case reader_pages d of
        Inl e \<Rightarrow> Inl e
      | Inr ps \<Rightarrow>
          (let n = int (length ps); j = (if i < 0 then n + i else i)
           in if 0 \<le> j \<and> j < n then Inr (ps ! nat j) else Inl IndexError))"

text \<open>A \<^verbatim>\<open>PdfWriter\<close> is the list of the pages added so far. Writing it to a path opens the
  path for writing and stores an unencrypted document with these pages. A failing open is
  given as \<^verbatim>\<open>PermissionError\<close> whatever its reason, so only the text of the failure message
  depends on this choice.\<close>

definition written :: "'p list \<Rightarrow> 'p content" where
  "written ps = Pdf \<lparr>pages = ps, is_encrypted = False, decrypted = False\<rparr>"

definition write_pdf :: "'p fs \<Rightarrow> path \<Rightarrow> 'p list \<Rightarrow> exc + 'p fs" where
  "write_pdf fs p ps =
     (if p \<in> denied fs then Inl (PermissionError p)
      else Inr (fs\<lparr>files := (files fs)(p \<mapsto> written ps)\<rparr>))"

text \<open>A source document is readable when a reader can be made of it and its pages accessed.\<close>

definition readable :: "'p fs \<Rightarrow> path \<Rightarrow> 'p list \<Rightarrow> bool" where
  "readable fs p ps \<longleftrightarrow>
     (case PdfReader fs p of Inl e \<Rightarrow> False | Inr d \<Rightarrow> reader_pages d = Inr ps)"

section \<open>Extracting pages in a given order\<close>

text \<open>
  \<^verbatim>\<open>reorder_pdf_pages\<close> of \<^verbatim>\<open>gtk4IatePDFs.py\<close> and \<^verbatim>\<open>PdfToolWindow._reorder_pdf_pages\<close>
  of \<^verbatim>\<open>IAtePDFs.py\<close> have the same body. The loop collects the pages into the writer before
  the output is opened; every exception becomes the result \<^verbatim>\<open>(False, message)\<close>.
\<close>

fun collect_pages :: "'p document \<Rightarrow> 'p list \<Rightarrow> int list \<Rightarrow> exc + 'p list" where
  "collect_pages reader writer [] = Inr writer"
| "collect_pages reader writer (index # rest) =
     (case getitem reader index of
        Inl e \<Rightarrow> Inl e
      | Inr page \<Rightarrow> collect_pages reader (writer @ [page]) rest)"

definition reorder_pdf_pages ::
  "'p fs \<Rightarrow> path \<Rightarrow> path \<Rightarrow> int list \<Rightarrow> (bool \<times> string) \<times> 'p fs" where
  "reorder_pdf_pages fs input_path output_path new_order_indices =
     (case PdfReader fs input_path of
        Inl e \<Rightarrow> ((False, ''Failed to reorder PDF: '' @ str_exc e), fs)
      | Inr reader \<Rightarrow>
          (case collect_pages reader [] new_order_indices of
             Inl e \<Rightarrow> ((False, ''Failed to reorder PDF: '' @ str_exc e), fs)
           | Inr writer \<Rightarrow>
               (case write_pdf fs output_path writer of
                  Inl e \<Rightarrow> ((False, ''Failed to reorder PDF: '' @ str_exc e), fs)
                | Inr fs' \<Rightarrow> ((True, ''Successfully reordered pages.''), fs'))))"

section \<open>Merging\<close>

text \<open>
  \<^verbatim>\<open>merge_pdfs\<close> (both files). \<^verbatim>\<open>merger.append(path)\<close> reads the document at the path and
  adds all its pages to the writer.
\<close>

definition append_pdf :: "'p fs \<Rightarrow> 'p list \<Rightarrow> path \<Rightarrow> exc + 'p list" where
  "append_pdf fs merger p =
     (case PdfReader fs p of
        Inl e \<Rightarrow> Inl e
      | Inr reader \<Rightarrow>
          (case reader_pages reader of
             Inl e \<Rightarrow> Inl e
           | Inr ps \<Rightarrow> Inr (merger @ ps)))"

fun append_all :: "'p fs \<Rightarrow> 'p list \<Rightarrow> path list \<Rightarrow> exc + 'p list" where
  "append_all fs merger [] = Inr merger"
| "append_all fs merger (p # rest) =
     (case append_pdf fs merger p of
        Inl e \<Rightarrow> Inl e
      | Inr merger' \<Rightarrow> append_all fs merger' rest)"

text \<open>Decimal digits of a number, as \<^verbatim>\<open>str\<close> and the f-strings print it.\<close>

fun str_nat :: "nat \<Rightarrow> string" where
  "str_nat n =
     (if n < 10 then [''0123456789'' ! n]
      else str_nat (n div 10) @ [''0123456789'' ! (n mod 10)])"

declare str_nat.simps [simp del]

definition merge_pdfs :: "'p fs \<Rightarrow> path list \<Rightarrow> path \<Rightarrow> (bool \<times> string) \<times> 'p fs" where
  "merge_pdfs fs pdf_paths output_path =
     (case append_all fs [] pdf_paths of
        Inl e \<Rightarrow> ((False, ''Failed to merge PDFs: '' @ str_exc e), fs)
      | Inr merger \<Rightarrow>
          (case write_pdf fs output_path merger of
             Inl e \<Rightarrow> ((False, ''Failed to merge PDFs: '' @ str_exc e), fs)
           | Inr fs' \<Rightarrow>
               ((True, ''Successfully merged '' @ str_nat (length pdf_paths) @ '' files.''), fs')))"

section \<open>Splitting\<close>

text \<open>
  \<^verbatim>\<open>os.makedirs(output_dir, exist_ok=True)\<close>: nothing to do when the directory is there; it
  fails when a file has that name or the directory cannot be made. (The parent directories
  that \<^verbatim>\<open>makedirs\<close> would make on the way are not recorded.)
\<close>

definition makedirs :: "'p fs \<Rightarrow> path \<Rightarrow> exc + 'p fs" where
  "makedirs fs d =
     (if d \<in> dirs fs then Inr fs
      else if files fs d \<noteq> None then Inl (FileExistsError d)
      else if d \<in> denied fs then Inl (PermissionError d)
      else Inr (fs\<lparr>dirs := insert d (dirs fs)\<rparr>))"

text \<open>\<^verbatim>\<open>os.path.join(a, b)\<close> on POSIX.\<close>

definition os_path_join :: "path \<Rightarrow> string \<Rightarrow> path" where
  "os_path_join a b =
     (if b \<noteq> [] \<and> hd b = CHR ''/'' then b
      else if a = [] \<or> last a = CHR ''/'' then a @ b
      else a @ ''/'' @ b)"

text \<open>
  \<^verbatim>\<open>Path(p).stem\<close>: the last component of the path (empty components and \<^verbatim>\<open>.\<close> are dropped)
  without its last suffix; a name that only starts or only ends with a dot keeps it.
\<close>

fun split_sep :: "char \<Rightarrow> string \<Rightarrow> string list" where
  "split_sep sep [] = [[]]"
| "split_sep sep (c # cs) =
     (if c = sep then [] # split_sep sep cs
      else (case split_sep sep cs of
              [] \<Rightarrow> [[c]]
            | w # ws \<Rightarrow> (c # w) # ws))"

definition path_name :: "path \<Rightarrow> string" where
  "path_name p =
     (case filter (\<lambda>c. c \<noteq> [] \<and> c \<noteq> ''.'') (split_sep CHR ''/'' p) of
        [] \<Rightarrow> []
      | c # cs \<Rightarrow> last (c # cs))"

definition stem :: "path \<Rightarrow> string" where
  "stem p =
     (let name = path_name p
      in if CHR ''.'' \<in> set name
         then (let i = length name - 1 - length (takeWhile (\<lambda>c. c \<noteq> CHR ''.'') (rev name))
               in if 0 < i \<and> i < length name - 1 then take i name else name)
         else name)"

definition page_file :: "path \<Rightarrow> string \<Rightarrow> nat \<Rightarrow> path" where
  "page_file output_dir base_name i =
     os_path_join output_dir (base_name @ ''_page_'' @ str_nat (i + 1) @ ''.pdf'')"

text \<open>The loop over \<^verbatim>\<open>enumerate(reader.pages)\<close>: one writer, one page and one file per turn.
  What was written before a failure stays written.\<close>

fun split_pages :: "'p fs \<Rightarrow> path \<Rightarrow> string \<Rightarrow> nat \<Rightarrow> 'p list \<Rightarrow> exc option \<times> 'p fs" where
  "split_pages fs output_dir base_name i [] = (None, fs)"
| "split_pages fs output_dir base_name i (page # rest) =
     (case write_pdf fs (page_file output_dir base_name i) [page] of
        Inl e \<Rightarrow> (Some e, fs)
      | Inr fs' \<Rightarrow> split_pages fs' output_dir base_name (i + 1) rest)"

definition split_pdf :: "'p fs \<Rightarrow> path \<Rightarrow> path \<Rightarrow> (bool \<times> string) \<times> 'p fs" where
  "split_pdf fs input_path output_dir =
     (case PdfReader fs input_path of
        Inl e \<Rightarrow> ((False, ''Failed to split PDF: '' @ str_exc e), fs)
      | Inr reader \<Rightarrow>
          (let base_name = stem input_path
           in case makedirs fs output_dir of
                Inl e \<Rightarrow> ((False, ''Failed to split PDF: '' @ str_exc e), fs)
              | Inr fs1 \<Rightarrow>
                  (case reader_pages reader of
                     Inl e \<Rightarrow> ((False, ''Failed to split PDF: '' @ str_exc e), fs1)
                   | Inr ps \<Rightarrow>
                       (case split_pages fs1 output_dir base_name 0 ps of
                          (Some e, fs2) \<Rightarrow> ((False, ''Failed to split PDF: '' @ str_exc e), fs2)
                        | (None, fs2) \<Rightarrow>
                            ((True, ''Successfully split into '' @ str_nat (length ps) @ '' pages.''),
                             fs2)))))"

section \<open>Compressing\<close>

text \<open>
  The external tool. A program takes its argument vector and the file system and gives its
  exit code, what it wrote to standard output and to standard error, and the file system
  it leaves. What it wrote is bytes: they either decode to a text in the locale's encoding
  or do not. The search path maps the name of a program to what is found under that name:
  a program that runs, or a file that may not be executed.

  \<^verbatim>\<open>subprocess.run(command, check=True, capture_output=True, text=True)\<close> raises
  \<^verbatim>\<open>FileNotFoundError\<close> when nothing of that name is found and \<^verbatim>\<open>PermissionError\<close> when
  what is found may not be executed, without running anything; after the program has run it
  decodes both captured outputs, strictly, and raises \<^verbatim>\<open>UnicodeDecodeError\<close> when one of them
  does not decode; then it raises \<^verbatim>\<open>CalledProcessError\<close> when the exit code is not zero.
  (The strings of a command are paths and a preset name; they hold no NUL character.)
\<close>

datatype captured = Decoded string | Undecodable

type_synonym 'p program =
  "string list \<Rightarrow> 'p fs \<Rightarrow> (int \<times> captured \<times> captured) \<times> 'p fs"

datatype 'p located = Runs "'p program" | Not_executable

datatype run_exc =
    FileNotFound
  | CalledProcessError int string
  | PermissionDenied
  | UnicodeDecodeError

definition subprocess_run ::
  "(string \<rightharpoonup> 'p located) \<Rightarrow> 'p fs \<Rightarrow> string list \<Rightarrow> (run_exc + unit) \<times> 'p fs" where
  "subprocess_run search_path fs command =
     (case command of
        [] \<Rightarrow> (Inl FileNotFound, fs)
      | name # args \<Rightarrow>
          (case search_path name of
             None \<Rightarrow> (Inl FileNotFound, fs)
           | Some Not_executable \<Rightarrow> (Inl PermissionDenied, fs)
           | Some (Runs prog) \<Rightarrow>
               (case prog command fs of
                  ((returncode, Decoded stdout, Decoded stderr), fs') \<Rightarrow>
                    if returncode \<noteq> 0 then (Inl (CalledProcessError returncode stderr), fs')
                    else (Inr (), fs')
                | ((returncode, out, err), fs') \<Rightarrow> (Inl UnicodeDecodeError, fs'))))"

definition compress_command :: "path \<Rightarrow> path \<Rightarrow> string \<Rightarrow> string list" where
  "compress_command input_path output_path quality =
     [''gs'', ''-sDEVICE=pdfwrite'', ''-dCompatibilityLevel=1.4'',
      ''-dPDFSETTINGS=/'' @ quality, ''-dNOPAUSE'', ''-dQUIET'', ''-dBATCH'',
      ''-sOutputFile='' @ output_path, input_path]"

text \<open>
  \<^verbatim>\<open>compress_pdf\<close> (both files) catches \<^verbatim>\<open>FileNotFoundError\<close> and \<^verbatim>\<open>CalledProcessError\<close>
  and nothing else: any other exception leaves the function, which then returns no pair
  (\<open>Inl\<close> is the exception that escapes, \<open>Inr\<close> the pair returned).
\<close>

definition compress_pdf ::
  "(string \<rightharpoonup> 'p located) \<Rightarrow> 'p fs \<Rightarrow> path \<Rightarrow> path \<Rightarrow> string \<Rightarrow>
     (run_exc + bool \<times> string) \<times> 'p fs" where
  "compress_pdf search_path fs input_path output_path quality =
     (case subprocess_run search_path fs (compress_command input_path output_path quality) of
        (Inr u, fs') \<Rightarrow> (Inr (True, ''Compression successful.''), fs')
      | (Inl FileNotFound, fs') \<Rightarrow>
          (Inr (False, ''Error: Ghostscript (gs) is not installed or not in your PATH.''), fs')
      | (Inl (CalledProcessError returncode stderr), fs') \<Rightarrow>
          (Inr (False, ''Ghostscript failed: '' @ stderr), fs')
      | (Inl e, fs') \<Rightarrow> (Inl e, fs'))"

section \<open>The page grid of the reorder view\<close>

text \<open>
  \<^verbatim>\<open>PdfPageWidget\<close> of \<^verbatim>\<open>IAtePDFs.py\<close>: the index the page had when the document was
  loaded, the deleted flag, and the state of the toggle button whose \<^verbatim>\<open>toggled\<close> signal
  sets the flag. The order of the pages is the order of the widgets in the flow box.
\<close>

record page_widget =
  original_page_index :: int
  is_deleted :: bool
  delete_button_active :: bool

definition PdfPageWidget :: "int \<Rightarrow> page_widget" where
  "PdfPageWidget page_index =
     \<lparr>original_page_index = page_index, is_deleted = False, delete_button_active = False\<rparr>"

text \<open>\<^verbatim>\<open>_on_delete_toggled\<close> reads the button; a click on the button flips it and emits the
  signal.\<close>

definition on_delete_toggled :: "page_widget \<Rightarrow> page_widget" where
  "on_delete_toggled w = w\<lparr>is_deleted := delete_button_active w\<rparr>"

definition click_delete_button :: "page_widget \<Rightarrow> page_widget" where
  "click_delete_button w =
     on_delete_toggled (w\<lparr>delete_button_active := \<not> delete_button_active w\<rparr>)"

definition toggle_deleted :: "page_widget list \<Rightarrow> nat \<Rightarrow> page_widget list" where
  "toggle_deleted flow_box position =
     (if position < length flow_box
      then flow_box[position := click_delete_button (flow_box ! position)]
      else flow_box)"

text \<open>\<^verbatim>\<open>flow_box.remove(child)\<close> and \<^verbatim>\<open>flow_box.insert(child, position)\<close>, the child given by
  its place; a position past the end appends.\<close>

definition flow_box_remove :: "'a list \<Rightarrow> nat \<Rightarrow> 'a list" where
  "flow_box_remove flow_box i = take i flow_box @ drop (Suc i) flow_box"

definition flow_box_insert :: "'a list \<Rightarrow> 'a \<Rightarrow> nat \<Rightarrow> 'a list" where
  "flow_box_insert flow_box child position =
     take position flow_box @ [child] @ drop position flow_box"

text \<open>
  \<^verbatim>\<open>PdfPageWidget._on_drop\<close>: the widget at place \<open>source\<close> is dropped on the widget at place
  \<open>target\<close>. The target's index is read before the source is removed.
\<close>

definition page_on_drop :: "'a list \<Rightarrow> nat \<Rightarrow> nat \<Rightarrow> 'a list" where
  "page_on_drop flow_box source target =
     (if source = target then flow_box
      else if source < length flow_box \<and> target < length flow_box
      then (let target_index = target
            in flow_box_insert (flow_box_remove flow_box source) (flow_box ! source)
                 target_index)
      else flow_box)"

text \<open>The list comprehension of \<^verbatim>\<open>_run_reorder_task\<close>.\<close>

definition new_order_indices :: "page_widget list \<Rightarrow> int list" where
  "new_order_indices flow_box_children =
     map original_page_index (filter (\<lambda>child. \<not> is_deleted child) flow_box_children)"

section \<open>The window of \<^verbatim>\<open>IAtePDFs.py\<close>\<close>

text \<open>
  The fields of \<^verbatim>\<open>PdfToolWindow\<close> that its handlers read and write: the rows of the merge
  list (each its \<^verbatim>\<open>file_path\<close>), the page grid, the sensitivity of the buttons, the toasts
  shown so far, the file dialogs that are open and the background threads that were started
  and have not yet reported. A dialog is not modal: the window stays usable while it is open.
\<close>

datatype callback = Run_compress_task | Run_split_task | Run_merge_task | Run_reorder_task

datatype dialog = Save_dialog string callback | Folder_dialog callback

datatype task =
    Compress_task path path string
  | Split_task path path
  | Merge_task "path list" path
  | Reorder_task "path option" path "int list"

record window =
  is_processing :: bool
  selected_pdf :: "path option"
  reorder_source_path :: "path option"
  compression_quality :: string
  merge_list_box :: "path list"
  reorder_flow_box :: "page_widget list"
  reorder_subtitle :: string
  main_stack :: string
  merge_button :: bool
  compress_button :: bool
  split_button :: bool
  reorder_button :: bool
  clear_button :: bool
  toasts :: "string list"
  dialogs :: "dialog list"
  threads :: "task list"

definition init_window :: window where
  "init_window =
     \<lparr>is_processing = False, selected_pdf = None, reorder_source_path = None,
      compression_quality = ''ebook'', merge_list_box = [], reorder_flow_box = [],
      reorder_subtitle = ''Select a PDF file to reorder its pages'',
      main_stack = ''placeholder'', merge_button = False, compress_button = False,
      split_button = False, reorder_button = False, clear_button = False,
      toasts = [], dialogs = [], threads = []\<rparr>"

definition add_toast :: "window \<Rightarrow> string \<Rightarrow> window" where
  "add_toast w title = w\<lparr>toasts := toasts w @ [title]\<rparr>"

definition update_ui_state :: "window \<Rightarrow> window" where
  "update_ui_state w =
     (let merge_count = length (merge_list_box w);
          has_selected_file = (selected_pdf w \<noteq> None);
          has_reorder_content = (reorder_source_path w \<noteq> None);
          w1 = w\<lparr>merge_button := (merge_count \<ge> 2 \<and> \<not> is_processing w),
                 compress_button := (has_selected_file \<and> \<not> is_processing w),
                 split_button := (has_selected_file \<and> \<not> is_processing w),
                 reorder_button := (has_reorder_content \<and> \<not> is_processing w),
                 clear_button := (merge_count > 0 \<and> \<not> is_processing w)\<rparr>
      in if merge_count = 0
         then w1\<lparr>main_stack := ''placeholder'', selected_pdf := None,
                 reorder_source_path := None\<rparr>
         else w1)"

definition set_processing_state :: "window \<Rightarrow> bool \<Rightarrow> string \<Rightarrow> window" where
  "set_processing_state w processing message =
     (let w1 = update_ui_state (w\<lparr>is_processing := processing\<rparr>)
      in if processing then add_toast w1 message else w1)"

definition clear_reorder_view :: "window \<Rightarrow> window" where
  "clear_reorder_view w =
     w\<lparr>reorder_flow_box := [], reorder_subtitle := ''Select a PDF file to reorder its pages''\<rparr>"

text \<open>\<^verbatim>\<open>os.path.basename\<close>: what follows the last slash.\<close>

definition os_path_basename :: "path \<Rightarrow> string" where
  "os_path_basename p = rev (takeWhile (\<lambda>c. c \<noteq> CHR ''/'') (rev p))"

text \<open>
  \<^verbatim>\<open>_load_pdf_for_reordering\<close> of \<^verbatim>\<open>IAtePDFs.py\<close>. An encrypted document is refused before
  anything is changed. There is no test of the number of pages. An exception after the view
  was cleared leaves it cleared.
\<close>

definition load_pdf_for_reordering :: "'p fs \<Rightarrow> window \<Rightarrow> path \<Rightarrow> window" where
  "load_pdf_for_reordering fs w file_path =
     (case PdfReader fs file_path of
        Inl e \<Rightarrow> add_toast w (''Error reading PDF: '' @ str_exc e)
      | Inr reader \<Rightarrow>
          if is_encrypted reader then add_toast w ''Cannot load encrypted PDF.''
          else (let w1 = clear_reorder_view w;
                    w2 = w1\<lparr>reorder_source_path := Some file_path,
                            reorder_subtitle :=
                              ''Reordering pages for: '' @ os_path_basename file_path\<rparr>
                in case reader_pages reader of
                     Inl e \<Rightarrow> add_toast w2 (''Error reading PDF: '' @ str_exc e)
                   | Inr ps \<Rightarrow>
                       w2\<lparr>reorder_flow_box :=
                            map (\<lambda>i. PdfPageWidget (int i)) [0..<length ps]\<rparr>))"

definition on_file_selected :: "'p fs \<Rightarrow> window \<Rightarrow> path option \<Rightarrow> window" where
  "on_file_selected fs w row =
     (case row of
        None \<Rightarrow>
          update_ui_state
            ((clear_reorder_view (w\<lparr>selected_pdf := None\<rparr>))\<lparr>reorder_source_path := None\<rparr>)
      | Some file_path \<Rightarrow>
          update_ui_state
            (load_pdf_for_reordering fs (w\<lparr>selected_pdf := Some file_path\<rparr>) file_path))"

text \<open>\<^verbatim>\<open>not x\<close> for a field that holds \<^verbatim>\<open>None\<close> or a string.\<close>

definition falsy :: "string option \<Rightarrow> bool" where
  "falsy x \<longleftrightarrow> x = None \<or> x = Some []"

text \<open>\<^verbatim>\<open>_handle_files\<close>; selecting the first row emits \<^verbatim>\<open>row-selected\<close>, which runs
  \<^verbatim>\<open>_on_file_selected\<close>.\<close>

definition handle_files :: "'p fs \<Rightarrow> window \<Rightarrow> path list \<Rightarrow> window" where
  "handle_files fs w pdf_paths =
     (let w1 = w\<lparr>main_stack := ''content'', merge_list_box := merge_list_box w @ pdf_paths\<rparr>;
          w2 = (if falsy (selected_pdf w1) \<and> pdf_paths \<noteq> []
                then (case merge_list_box w1 of
                        [] \<Rightarrow> w1
                      | first_row # rows \<Rightarrow> on_file_selected fs w1 (Some first_row))
                else w1)
      in update_ui_state w2)"

text \<open>\<^verbatim>\<open>s.lower()\<close> on the ASCII letters, and \<^verbatim>\<open>s.endswith(t)\<close>.\<close>

definition lower_char :: "char \<Rightarrow> char" where
  "lower_char c =
     (case map_of (zip ''ABCDEFGHIJKLMNOPQRSTUVWXYZ'' ''abcdefghijklmnopqrstuvwxyz'') c of
        None \<Rightarrow> c
      | Some l \<Rightarrow> l)"

definition endswith :: "string \<Rightarrow> string \<Rightarrow> bool" where
  "endswith s t \<longleftrightarrow> length t \<le> length s \<and> drop (length s - length t) s = t"

definition is_pdf_path :: "path option \<Rightarrow> bool" where
  "is_pdf_path f \<longleftrightarrow>
     (case f of
        None \<Rightarrow> False
      | Some p \<Rightarrow> p \<noteq> [] \<and> endswith (map lower_char p) ''.pdf'')"

text \<open>\<^verbatim>\<open>_on_drop\<close> of the window: the files dropped, each with its \<^verbatim>\<open>get_path()\<close>.\<close>

definition on_drop :: "'p fs \<Rightarrow> window \<Rightarrow> path option list \<Rightarrow> window" where
  "on_drop fs w files_dropped =
     (if files_dropped = [] \<or> is_processing w
      then (if is_processing w then add_toast w ''A task is already in progress.'' else w)
      else (let pdf_files = map the (filter is_pdf_path files_dropped)
            in if pdf_files \<noteq> [] then handle_files fs w pdf_files else w))"

text \<open>The handlers of the buttons open a dialog; accepting the dialog calls the callback
  with the path chosen.\<close>

definition show_dialog :: "window \<Rightarrow> dialog \<Rightarrow> window" where
  "show_dialog w d = w\<lparr>dialogs := dialogs w @ [d]\<rparr>"

definition on_compress_clicked :: "window \<Rightarrow> window" where
  "on_compress_clicked w =
     (if falsy (selected_pdf w) then w
      else show_dialog w
             (Save_dialog (stem (the (selected_pdf w)) @ ''_compressed.pdf'') Run_compress_task))"

definition on_split_clicked :: "window \<Rightarrow> window" where
  "on_split_clicked w =
     (if falsy (selected_pdf w) then w else show_dialog w (Folder_dialog Run_split_task))"

definition on_merge_clicked :: "window \<Rightarrow> window" where
  "on_merge_clicked w = show_dialog w (Save_dialog ''merged.pdf'' Run_merge_task)"

definition on_reorder_clicked :: "window \<Rightarrow> window" where
  "on_reorder_clicked w =
     (if falsy (reorder_source_path w) then w
      else show_dialog w
             (Save_dialog (stem (the (reorder_source_path w)) @ ''_reordered.pdf'')
                Run_reorder_task))"

text \<open>
  The \<^verbatim>\<open>_run_*_task\<close> methods set the processing state and start a thread. What the thread's
  closure reads of the window (\<^verbatim>\<open>compression_quality\<close>, \<^verbatim>\<open>reorder_source_path\<close>) is read
  here, after the processing state is set, which is when the thread starts.
\<close>

definition start_thread :: "window \<Rightarrow> task \<Rightarrow> window" where
  "start_thread w t = w\<lparr>threads := threads w @ [t]\<rparr>"

definition run_compress_task :: "window \<Rightarrow> path \<Rightarrow> window" where
  "run_compress_task w output_path =
     (if falsy (selected_pdf w) then w
      else (let input_path = the (selected_pdf w);
                w1 = set_processing_state w True ''Compressing PDF...''
            in start_thread w1 (Compress_task input_path output_path (compression_quality w1))))"

definition run_split_task :: "window \<Rightarrow> path \<Rightarrow> window" where
  "run_split_task w output_dir =
     (if falsy (selected_pdf w) then w
      else (let input_path = the (selected_pdf w);
                w1 = set_processing_state w True ''Splitting PDF...''
            in start_thread w1 (Split_task input_path output_dir)))"

definition run_merge_task :: "window \<Rightarrow> path \<Rightarrow> window" where
  "run_merge_task w output_path =
     (let pdf_paths = merge_list_box w;
          w1 = set_processing_state w True ''Merging PDFs...''
      in start_thread w1 (Merge_task pdf_paths output_path))"

definition run_reorder_task :: "window \<Rightarrow> path \<Rightarrow> window" where
  "run_reorder_task w output_path =
     (if falsy (reorder_source_path w) then w
      else (let order = new_order_indices (reorder_flow_box w);
                w1 = set_processing_state w True ''Saving reordered PDF...''
            in start_thread w1 (Reorder_task (reorder_source_path w1) output_path order)))"

fun run_callback :: "callback \<Rightarrow> window \<Rightarrow> path \<Rightarrow> window" where
  "run_callback Run_compress_task w p = run_compress_task w p"
| "run_callback Run_split_task w p = run_split_task w p"
| "run_callback Run_merge_task w p = run_merge_task w p"
| "run_callback Run_reorder_task w p = run_reorder_task w p"

fun dialog_callback :: "dialog \<Rightarrow> callback" where
  "dialog_callback (Save_dialog default_name cb) = cb"
| "dialog_callback (Folder_dialog cb) = cb"

definition accept_dialog :: "window \<Rightarrow> nat \<Rightarrow> path \<Rightarrow> window" where
  "accept_dialog w i p =
     (if i < length (dialogs w)
      then run_callback (dialog_callback (dialogs w ! i))
             (w\<lparr>dialogs := take i (dialogs w) @ drop (Suc i) (dialogs w)\<rparr>) p
      else w)"

text \<open>
  What the closure \<^verbatim>\<open>task\<close> of a thread computes: the result of its operation, or the
  exception that the operation lets escape.
\<close>

fun run_task ::
  "(string \<rightharpoonup> 'p located) \<Rightarrow> 'p fs \<Rightarrow> task \<Rightarrow> (run_exc + bool \<times> string) \<times> 'p fs" where
  "run_task sp fs (Compress_task input_path output_path quality) =
     compress_pdf sp fs input_path output_path quality"
| "run_task sp fs (Split_task input_path output_dir) =
     apfst Inr (split_pdf fs input_path output_dir)"
| "run_task sp fs (Merge_task pdf_paths output_path) =
     apfst Inr (merge_pdfs fs pdf_paths output_path)"
| "run_task sp fs (Reorder_task (Some input_path) output_path order) =
     apfst Inr (reorder_pdf_pages fs input_path output_path order)"
| "run_task sp fs (Reorder_task None output_path order) =
     (Inr (False, ''Failed to reorder PDF: '' @
         str_exc (AttributeError
           ([CHR 0x27] @ ''NoneType'' @ [CHR 0x27] @ '' object has no attribute '' @
            [CHR 0x27] @ ''seek'' @ [CHR 0x27]))), fs)"

fun clears_merge :: "task \<Rightarrow> bool" where
  "clears_merge (Merge_task pdf_paths output_path) = True"
| "clears_merge t = False"

text \<open>\<^verbatim>\<open>_on_task_finished\<close>, which the thread hands to the main loop with its result.\<close>

definition on_task_finished :: "window \<Rightarrow> bool \<Rightarrow> string \<Rightarrow> bool \<Rightarrow> window" where
  "on_task_finished w success message clear_merge =
     (let w1 = add_toast (set_processing_state w False []) message
      in if success \<and> clear_merge
         then update_ui_state
                ((clear_reorder_view (w1\<lparr>merge_list_box := [], selected_pdf := None\<rparr>))
                   \<lparr>reorder_source_path := None\<rparr>)
         else w1)"

text \<open>
  A thread ends. Its closure is
  \<^verbatim>\<open>success, message = self._compress_pdf(...); GLib.idle_add(self._on_task_finished, ...)\<close>:
  when the operation returns, \<^verbatim>\<open>_on_task_finished\<close> runs with the result; when the operation
  raises, the thread ends there and nothing is handed to the main loop.
\<close>

definition thread_done ::
  "(string \<rightharpoonup> 'p located) \<Rightarrow> 'p fs \<times> window \<Rightarrow> nat \<Rightarrow> 'p fs \<times> window" where
  "thread_done sp s i =
     (case s of (fs, w) \<Rightarrow>
        if i < length (threads w)
        then (let w1 = w\<lparr>threads := take i (threads w) @ drop (Suc i) (threads w)\<rparr>
              in case run_task sp fs (threads w ! i) of
                   (Inr (success, message), fs') \<Rightarrow>
                     (fs', on_task_finished w1 success message (clears_merge (threads w ! i)))
                 | (Inl e, fs') \<Rightarrow> (fs', w1))
        else (fs, w))"

definition on_close_request :: "window \<Rightarrow> bool \<times> window" where
  "on_close_request w =
     (if is_processing w
      then (True, add_toast w ''Cannot close while a task is in progress.'')
      else (False, w))"

text \<open>
  Events of the window that the properties below use: a drop of files, a click on an
  operation button (a button answers a click only while it is sensitive), the acceptance of
  an open dialog, a drag or a delete toggle in the page grid, the end of a thread. The
  window has more handlers than these (browsing for files, selecting and removing rows,
  clearing, choosing the quality).
\<close>

datatype event =
    Drop "path option list"
  | Click_compress
  | Click_split
  | Click_merge
  | Click_reorder
  | Accept nat path
  | Drag_page nat nat
  | Toggle_delete nat
  | Thread_done nat

fun step ::
  "(string \<rightharpoonup> 'p located) \<Rightarrow> 'p fs \<times> window \<Rightarrow> event \<Rightarrow> 'p fs \<times> window" where
  "step sp (fs, w) (Drop files_dropped) = (fs, on_drop fs w files_dropped)"
| "step sp (fs, w) Click_compress = (fs, if compress_button w then on_compress_clicked w else w)"
| "step sp (fs, w) Click_split = (fs, if split_button w then on_split_clicked w else w)"
| "step sp (fs, w) Click_merge = (fs, if merge_button w then on_merge_clicked w else w)"
| "step sp (fs, w) Click_reorder = (fs, if reorder_button w then on_reorder_clicked w else w)"
| "step sp (fs, w) (Accept i p) = (fs, accept_dialog w i p)"
| "step sp (fs, w) (Drag_page source target) =
     (fs, w\<lparr>reorder_flow_box := page_on_drop (reorder_flow_box w) source target\<rparr>)"
| "step sp (fs, w) (Toggle_delete position) =
     (fs, w\<lparr>reorder_flow_box := toggle_deleted (reorder_flow_box w) position\<rparr>)"
| "step sp (fs, w) (Thread_done i) = thread_done sp (fs, w) i"

definition run_events ::
  "(string \<rightharpoonup> 'p located) \<Rightarrow> 'p fs \<times> window \<Rightarrow> event list \<Rightarrow> 'p fs \<times> window" where
  "run_events sp s evs = foldl (step sp) s evs"

section \<open>Loading a document in \<^verbatim>\<open>gtk4IatePDFs.py\<close>\<close>

text \<open>
  The fields of the other variant's window that \<^verbatim>\<open>_load_pdf_for_reordering\<close> and
  \<^verbatim>\<open>_update_reorder_view_state\<close> touch. Its page widgets have the original index only.
\<close>

record gtk4_window =
  gtk4_is_processing :: bool
  gtk4_reorder_source_path :: "path option"
  gtk4_reorder_flow_box :: "int list"
  gtk4_reorder_view_stack :: string
  gtk4_reorder_button :: bool
  gtk4_toasts :: "string list"

definition gtk4_add_toast :: "gtk4_window \<Rightarrow> string \<Rightarrow> gtk4_window" where
  "gtk4_add_toast w title = w\<lparr>gtk4_toasts := gtk4_toasts w @ [title]\<rparr>"

definition gtk4_update_reorder_view_state :: "gtk4_window \<Rightarrow> bool option \<Rightarrow> gtk4_window" where
  "gtk4_update_reorder_view_state w has_file_arg =
     (let has_file = (case has_file_arg of
                        None \<Rightarrow> gtk4_reorder_source_path w \<noteq> None
                      | Some b \<Rightarrow> b);
          w1 = w\<lparr>gtk4_reorder_view_stack := (if has_file then ''grid'' else ''placeholder''),
                 gtk4_reorder_button := (has_file \<and> \<not> gtk4_is_processing w)\<rparr>
      in if \<not> has_file then w1\<lparr>gtk4_reorder_source_path := None\<rparr> else w1)"

definition gtk4_load_pdf_for_reordering :: "'p fs \<Rightarrow> gtk4_window \<Rightarrow> path \<Rightarrow> gtk4_window" where
  "gtk4_load_pdf_for_reordering fs w file_path =
     (case PdfReader fs file_path of
        Inl e \<Rightarrow>
          gtk4_update_reorder_view_state
            (gtk4_add_toast w (''Error reading PDF: '' @ str_exc e)) (Some False)
      | Inr reader \<Rightarrow>
          if is_encrypted reader
          then gtk4_add_toast w ''Could not load: The PDF is encrypted.''
          else (case reader_pages reader of
                  Inl e \<Rightarrow>
                    gtk4_update_reorder_view_state
                      (gtk4_add_toast w (''Error reading PDF: '' @ str_exc e)) (Some False)
                | Inr ps \<Rightarrow>
                    (let num_pages = length ps
                     in if num_pages = 0
                        then gtk4_add_toast w ''PDF is empty or cannot be read.''
                        else gtk4_update_reorder_view_state
                               (w\<lparr>gtk4_reorder_flow_box := map int [0..<num_pages],
                                  gtk4_reorder_source_path := Some file_path\<rparr>)
                               (Some True))))"

section \<open>Auxiliary notions and concrete inputs\<close>

text \<open>The element that Python's indexing picks, for an index in range.\<close>

definition py_index :: "'p list \<Rightarrow> int \<Rightarrow> 'p" where
  "py_index ps i = ps ! nat (if i < 0 then int (length ps) + i else i)"

text \<open>A three-page document in a small file system, where one path cannot be written.\<close>

definition example_doc :: "string document" where
  "example_doc = \<lparr>pages = [''page A'', ''page B'', ''page C''], is_encrypted = False, decrypted = False\<rparr>"

definition example_fs :: "string fs" where
  "example_fs =
     \<lparr>files = [''/home/u/doc.pdf'' \<mapsto> Pdf example_doc], dirs = {''/home/u''}, denied = {''/etc/out.pdf''}\<rparr>"

text \<open>A second document, encrypted under the empty password, next to the first.\<close>

definition second_doc :: "string document" where
  "second_doc = \<lparr>pages = [''page X'', ''page Y''], is_encrypted = True, decrypted = True\<rparr>"

definition merge_fs :: "string fs" where
  "merge_fs =
     \<lparr>files = [''/home/u/doc.pdf'' \<mapsto> Pdf example_doc, ''/home/u/two.pdf'' \<mapsto> Pdf second_doc],
      dirs = {''/home/u''}, denied = {}\<rparr>"

text \<open>
  A Ghostscript that writes its output and exits with 0, one that fails with a message, and
  two whose standard error does not decode: one exits with 0 after a warning, the other
  fails.
\<close>

definition working_gs :: "string program" where
  "working_gs command fs =
     ((0, Decoded [], Decoded []),
      fs\<lparr>files := (files fs)(drop 13 (command ! 7) \<mapsto> Other ''compressed'')\<rparr>)"

definition failing_gs :: "string program" where
  "failing_gs command fs =
     ((1, Decoded [], Decoded ''Error: /undefinedfilename in (in.pdf)''), fs)"

definition garbling_gs :: "string program" where
  "garbling_gs command fs =
     ((0, Decoded [], Undecodable),
      fs\<lparr>files := (files fs)(drop 13 (command ! 7) \<mapsto> Other ''compressed'')\<rparr>)"

definition garbling_failing_gs :: "string program" where
  "garbling_failing_gs command fs = ((1, Decoded [], Undecodable), fs)"

text \<open>A four-page document, and the window after it was dropped on it.\<close>

definition four_fs :: "string fs" where
  "four_fs =
     \<lparr>files = [''/home/u/four.pdf'' \<mapsto>
        Pdf \<lparr>pages = [''P0'', ''P1'', ''P2'', ''P3''], is_encrypted = False, decrypted = False\<rparr>],
      dirs = {''/home/u''}, denied = {}\<rparr>"

definition loaded_four :: "string fs \<times> window" where
  "loaded_four = run_events Map.empty (four_fs, init_window) [Drop [Some ''/home/u/four.pdf'']]"

text \<open>A file system with an encrypted document and a document without pages; a window of
  the other variant that has a document loaded.\<close>

definition odd_fs :: "string fs" where
  "odd_fs =
     \<lparr>files = [''/home/u/locked.pdf'' \<mapsto>
                 Pdf \<lparr>pages = [''L0'', ''L1''], is_encrypted = True, decrypted = False\<rparr>,
               ''/home/u/empty.pdf'' \<mapsto>
                 Pdf \<lparr>pages = [], is_encrypted = False, decrypted = False\<rparr>],
      dirs = {''/home/u''}, denied = {}\<rparr>"

definition gtk4_loaded :: gtk4_window where
  "gtk4_loaded =
     \<lparr>gtk4_is_processing = False, gtk4_reorder_source_path = Some ''/home/u/doc.pdf'',
      gtk4_reorder_flow_box = [0, 1, 2], gtk4_reorder_view_stack = ''grid'',
      gtk4_reorder_button = True, gtk4_toasts = []\<rparr>"

section \<open>Properties of the extraction\<close>

lemma collect_pages_valid:
  assumes "reader_pages d = Inr ps"
    and "\<forall>i \<in> set order. - int (length ps) \<le> i \<and> i < int (length ps)"
  shows "collect_pages d w order = Inr (w @ map (py_index ps) order)"
  using assms
proof (induction order arbitrary: w)
  case Nil
  then show ?case by simp
next
  case (Cons i order)
  from Cons.prems have "getitem d i = Inr (py_index ps i)"
    by (simp add: getitem_def py_index_def)
  with Cons show ?case by simp
qed

lemma collect_pages_out_of_range:
  assumes "reader_pages d = Inr ps"
    and "\<exists>i \<in> set order. \<not> (- int (length ps) \<le> i \<and> i < int (length ps))"
  shows "collect_pages d w order = Inl IndexError"
  using assms
proof (induction order arbitrary: w)
  case Nil
  then show ?case by simp
next
  case (Cons i order)
  show ?case
  proof (cases "- int (length ps) \<le> i \<and> i < int (length ps)")
    case True
    with Cons.prems have "getitem d i = Inr (py_index ps i)"
      by (simp add: getitem_def py_index_def)
    moreover from True Cons.prems
    have "\<exists>i \<in> set order. \<not> (- int (length ps) \<le> i \<and> i < int (length ps))" by auto
    ultimately show ?thesis using Cons.IH Cons.prems(1) by simp
  next
    case False
    with Cons.prems(1) have "getitem d i = Inl IndexError"
      by (auto simp: getitem_def Let_def)
    then show ?thesis by simp
  qed
qed

lemma readableD:
  assumes "readable fs p ps"
  obtains d where "PdfReader fs p = Inr d" and "reader_pages d = Inr ps"
  using assms by (auto simp: readable_def split: sum.splits)

text \<open>
  Claim C1. For a readable source document with pages \<open>ps\<close> and every \<open>order\<close> whose
  indices all satisfy \<open>0 \<le> index < length ps\<close>, \<^verbatim>\<open>reorder_pdf_pages\<close> succeeds and the
  document written to the output path has the pages \<open>order\<close> mapped through \<open>ps\<close>, in that
  order. Nothing asks \<open>order\<close> to be a permutation: repeated and omitted indices succeed
  alike. The output path is one that can be opened for writing.
\<close>

theorem reorder_pdf_pages_in_range:
  assumes "readable fs input_path ps"
    and "\<forall>i \<in> set order. 0 \<le> i \<and> i < int (length ps)"
    and "output_path \<notin> denied fs"
  shows "reorder_pdf_pages fs input_path output_path order =
           ((True, ''Successfully reordered pages.''),
            fs\<lparr>files := (files fs)(output_path \<mapsto> written (map (\<lambda>i. ps ! nat i) order))\<rparr>)"
proof -
  from assms(1) obtain d where d: "PdfReader fs input_path = Inr d" "reader_pages d = Inr ps"
    by (rule readableD)
  from assms(2) have "\<forall>i \<in> set order. - int (length ps) \<le> i \<and> i < int (length ps)" by auto
  from collect_pages_valid [OF d(2) this]
  have "collect_pages d [] order = Inr (map (py_index ps) order)" by simp
  moreover from assms(2) have "map (py_index ps) order = map (\<lambda>i. ps ! nat i) order"
    by (auto simp: py_index_def)
  ultimately show ?thesis using d(1) assms(3)
    by (simp add: reorder_pdf_pages_def write_pdf_def)
qed

lemma example_readable: "readable example_fs ''/home/u/doc.pdf'' [''page A'', ''page B'', ''page C'']"
  by (simp add: readable_def PdfReader_def example_fs_def example_doc_def reader_pages_def)

text \<open>The order \<open>[0, 0, 1]\<close> on the three-page document: page A, page A again, page B.\<close>

theorem reorder_pdf_pages_in_range_witness:
  "readable example_fs ''/home/u/doc.pdf'' [''page A'', ''page B'', ''page C''] \<and>
   list_all (\<lambda>i. 0 \<le> i \<and> i < int (length [''page A'', ''page B'', ''page C''])) [0, 0, 1] \<and>
   ''/home/u/out.pdf'' \<notin> denied example_fs \<and>
   reorder_pdf_pages example_fs ''/home/u/doc.pdf'' ''/home/u/out.pdf'' [0, 0, 1] =
     ((True, ''Successfully reordered pages.''),
      example_fs\<lparr>files := (files example_fs)
         (''/home/u/out.pdf'' \<mapsto> written [''page A'', ''page A'', ''page B''])\<rparr>)"
proof -
  have h2: "\<forall>i \<in> set [0, 0, 1]. 0 \<le> i \<and> i < int (length [''page A'', ''page B'', ''page C''])"
    by simp
  have h3: "''/home/u/out.pdf'' \<notin> denied example_fs" by (simp add: example_fs_def)
  from reorder_pdf_pages_in_range [OF example_readable h2 h3] example_readable h2 h3
  show ?thesis by simp
qed

text \<open>
  Claim C3. For a readable source document with \<open>N\<close> pages and an order that contains the
  index \<open>N\<close>, \<^verbatim>\<open>reorder_pdf_pages\<close> returns the failure whose message carries the index error,
  and the file system is the one it started with: the pages are collected before the output
  path is opened, so the output file is neither created nor modified.
\<close>

theorem reorder_pdf_pages_index_equal_count:
  assumes "readable fs input_path ps"
    and "int (length ps) \<in> set order"
  shows "reorder_pdf_pages fs input_path output_path order =
           ((False, ''Failed to reorder PDF: Sequence index out of range''), fs)"
proof -
  from assms(1) obtain d where d: "PdfReader fs input_path = Inr d" "reader_pages d = Inr ps"
    by (rule readableD)
  from assms(2) have "\<exists>i \<in> set order. \<not> (- int (length ps) \<le> i \<and> i < int (length ps))"
    by auto
  from collect_pages_out_of_range [OF d(2) this]
  have "collect_pages d [] order = Inl IndexError" .
  with d(1) show ?thesis by (simp add: reorder_pdf_pages_def)
qed

text \<open>The order \<open>[0, 3, 1]\<close> on the three-page document; no output file appears.\<close>

theorem reorder_pdf_pages_index_equal_count_witness:
  "readable example_fs ''/home/u/doc.pdf'' [''page A'', ''page B'', ''page C''] \<and>
   int (length [''page A'', ''page B'', ''page C'']) \<in> set [0, 3, 1] \<and>
   reorder_pdf_pages example_fs ''/home/u/doc.pdf'' ''/home/u/out.pdf'' [0, 3, 1] =
     ((False, ''Failed to reorder PDF: Sequence index out of range''), example_fs) \<and>
   files example_fs ''/home/u/out.pdf'' = None"
proof -
  have h2: "int (length [''page A'', ''page B'', ''page C'']) \<in> set [0, 3, 1]" by simp
  from reorder_pdf_pages_index_equal_count [OF example_readable h2] example_readable h2
  show ?thesis by (simp add: example_fs_def)
qed

text \<open>
  Claim C10. For a readable source document with \<open>N\<close> pages and an order whose entries are
  all negative indices \<open>-k\<close> with \<open>1 \<le> k \<le> N\<close>, \<^verbatim>\<open>reorder_pdf_pages\<close> succeeds and the
  output has, for each entry \<open>-k\<close>, the source page \<open>N - k\<close>. The output path is one that can
  be opened for writing.
\<close>

theorem reorder_pdf_pages_negative:
  assumes "readable fs input_path ps"
    and "\<forall>i \<in> set order. - int (length ps) \<le> i \<and> i \<le> - 1"
    and "output_path \<notin> denied fs"
  shows "reorder_pdf_pages fs input_path output_path order =
           ((True, ''Successfully reordered pages.''),
            fs\<lparr>files := (files fs)(output_path \<mapsto>
                 written (map (\<lambda>i. ps ! nat (int (length ps) + i)) order))\<rparr>)"
proof -
  from assms(1) obtain d where d: "PdfReader fs input_path = Inr d" "reader_pages d = Inr ps"
    by (rule readableD)
  from assms(2) have "\<forall>i \<in> set order. - int (length ps) \<le> i \<and> i < int (length ps)" by auto
  from collect_pages_valid [OF d(2) this]
  have "collect_pages d [] order = Inr (map (py_index ps) order)" by simp
  moreover from assms(2)
  have "map (py_index ps) order = map (\<lambda>i. ps ! nat (int (length ps) + i)) order"
    by (auto simp: py_index_def)
  ultimately show ?thesis using d(1) assms(3)
    by (simp add: reorder_pdf_pages_def write_pdf_def)
qed

text \<open>The order \<open>[-1, -3]\<close> on the three-page document: page C, then page A.\<close>

theorem reorder_pdf_pages_negative_witness:
  "readable example_fs ''/home/u/doc.pdf'' [''page A'', ''page B'', ''page C''] \<and>
   list_all (\<lambda>i. - int (length [''page A'', ''page B'', ''page C'']) \<le> i \<and> i \<le> - 1) [- 1, - 3] \<and>
   ''/home/u/out.pdf'' \<notin> denied example_fs \<and>
   reorder_pdf_pages example_fs ''/home/u/doc.pdf'' ''/home/u/out.pdf'' [- 1, - 3] =
     ((True, ''Successfully reordered pages.''),
      example_fs\<lparr>files := (files example_fs)
         (''/home/u/out.pdf'' \<mapsto> written [''page C'', ''page A''])\<rparr>)"
proof -
  have h2: "\<forall>i \<in> set [- 1, - 3]. - int (length [''page A'', ''page B'', ''page C'']) \<le> i \<and> i \<le> - 1"
    by simp
  have h3: "''/home/u/out.pdf'' \<notin> denied example_fs" by (simp add: example_fs_def)
  from reorder_pdf_pages_negative [OF example_readable h2 h3] example_readable h2 h3
  show ?thesis by simp
qed

section \<open>Properties of merging\<close>

lemma append_all_readable:
  assumes "list_all2 (readable fs) pdf_paths pss"
  shows "append_all fs merger pdf_paths = Inr (merger @ concat pss)"
  using assms
proof (induction pdf_paths pss arbitrary: merger rule: list_all2_induct)
  case Nil
  then show ?case by simp
next
  case (Cons p pdf_paths ps pss)
  from Cons.hyps(1) obtain d where "PdfReader fs p = Inr d" "reader_pages d = Inr ps"
    by (rule readableD)
  then have "append_pdf fs merger p = Inr (merger @ ps)"
    by (simp add: append_pdf_def)
  with Cons.IH show ?case by simp
qed

text \<open>
  Claim C4. For every non-empty list of readable documents, \<^verbatim>\<open>merge_pdfs\<close> succeeds and
  writes a document whose pages are the pages of the inputs, each input a contiguous block,
  in the order of the list; so its page count is the sum of the inputs' page counts. A list
  of one document is accepted as any other. The output path is one that can be opened for
  writing.
\<close>

theorem merge_pdfs_concat:
  assumes "pdf_paths \<noteq> []"
    and "list_all2 (readable fs) pdf_paths pss"
    and "output_path \<notin> denied fs"
  shows "merge_pdfs fs pdf_paths output_path =
           ((True, ''Successfully merged '' @ str_nat (length pdf_paths) @ '' files.''),
            fs\<lparr>files := (files fs)(output_path \<mapsto> written (concat pss))\<rparr>) \<and>
         length (concat pss) = sum_list (map length pss)"
proof -
  from append_all_readable [OF assms(2)]
  have "append_all fs [] pdf_paths = Inr (concat pss)" by simp
  with assms(3) show ?thesis
    by (simp add: merge_pdfs_def write_pdf_def length_concat)
qed

lemma merge_fs_readable:
  "readable merge_fs ''/home/u/doc.pdf'' [''page A'', ''page B'', ''page C'']"
  "readable merge_fs ''/home/u/two.pdf'' [''page X'', ''page Y'']"
  by (simp_all add: readable_def PdfReader_def merge_fs_def example_doc_def second_doc_def
      reader_pages_def)

text \<open>Two documents in the order given, and a single one.\<close>

theorem merge_pdfs_concat_witness:
  "merge_pdfs merge_fs [''/home/u/two.pdf'', ''/home/u/doc.pdf''] ''/home/u/merged.pdf'' =
     ((True, ''Successfully merged 2 files.''),
      merge_fs\<lparr>files := (files merge_fs)(''/home/u/merged.pdf'' \<mapsto>
        written [''page X'', ''page Y'', ''page A'', ''page B'', ''page C''])\<rparr>) \<and>
   merge_pdfs merge_fs [''/home/u/doc.pdf''] ''/home/u/merged.pdf'' =
     ((True, ''Successfully merged 1 files.''),
      merge_fs\<lparr>files := (files merge_fs)(''/home/u/merged.pdf'' \<mapsto>
        written [''page A'', ''page B'', ''page C''])\<rparr>)"
proof -
  have out: "''/home/u/merged.pdf'' \<notin> denied merge_fs" by (simp add: merge_fs_def)
  have two: "list_all2 (readable merge_fs) [''/home/u/two.pdf'', ''/home/u/doc.pdf'']
               [[''page X'', ''page Y''], [''page A'', ''page B'', ''page C'']]"
    using merge_fs_readable by simp
  have one: "list_all2 (readable merge_fs) [''/home/u/doc.pdf'']
               [[''page A'', ''page B'', ''page C'']]"
    using merge_fs_readable by simp
  from merge_pdfs_concat [OF _ two out] merge_pdfs_concat [OF _ one out]
  show ?thesis by (simp add: str_nat.simps)
qed

section \<open>Properties of compressing\<close>

text \<open>
  Whatever the input path, the output path and the preset, \<^verbatim>\<open>compress_pdf\<close> runs the program
  found under the name \<^verbatim>\<open>gs\<close> with exactly the argument vector
  \<^verbatim>\<open>[gs, -sDEVICE=pdfwrite, -dCompatibilityLevel=1.4, -dPDFSETTINGS=/preset, -dNOPAUSE,
  -dQUIET, -dBATCH, -sOutputFile=output, input]\<close>. When what the program wrote decodes, the
  result reports success exactly when the exit code is 0, and otherwise its message ends
  with the standard error text.
\<close>

lemma compress_pdf_decoded:
  assumes "search_path ''gs'' = Some (Runs gs)"
    and "gs [''gs'', ''-sDEVICE=pdfwrite'', ''-dCompatibilityLevel=1.4'',
             ''-dPDFSETTINGS=/'' @ preset, ''-dNOPAUSE'', ''-dQUIET'', ''-dBATCH'',
             ''-sOutputFile='' @ output_path, input_path] fs =
           ((returncode, Decoded stdout, Decoded stderr), fs')"
  shows "compress_pdf search_path fs input_path output_path preset =
           (Inr (returncode = 0,
                 if returncode = 0 then ''Compression successful.''
                 else ''Ghostscript failed: '' @ stderr), fs')"
  using assms by (simp add: compress_pdf_def compress_command_def subprocess_run_def)

lemma compress_pdf_decoded_examples:
  "compress_pdf [''gs'' \<mapsto> Runs failing_gs] example_fs ''/home/u/doc.pdf'' ''/home/u/small.pdf''
     ''ebook'' =
     (Inr (False, ''Ghostscript failed: Error: /undefinedfilename in (in.pdf)''), example_fs)"
  "compress_pdf [''gs'' \<mapsto> Runs working_gs] example_fs ''/home/u/doc.pdf'' ''/home/u/small.pdf''
     ''screen'' =
     (Inr (True, ''Compression successful.''),
      example_fs\<lparr>files := (files example_fs)(''/home/u/small.pdf'' \<mapsto> Other ''compressed'')\<rparr>)"
  by (simp_all add: compress_pdf_def compress_command_def subprocess_run_def failing_gs_def
      working_gs_def)

text \<open>
  Claim C7 says that \<^verbatim>\<open>compress_pdf\<close> reports success exactly when the exit code is 0 and,
  on another exit code, returns a failure message with the captured standard error text.
  The code does not do so at a tool whose standard error does not decode in the locale's
  encoding: \<^verbatim>\<open>subprocess.run\<close> raises \<^verbatim>\<open>UnicodeDecodeError\<close>, which \<^verbatim>\<open>compress_pdf\<close> does not
  catch (as \<^verbatim>\<open>merge_pdfs\<close> and \<^verbatim>\<open>reorder_pdf_pages\<close> catch every exception), so no pair is
  returned, neither for the exit code 0, when the compressed file has been written, nor
  for the exit code 1.
\<close>

theorem compress_pdf_undecodable_output:
  "compress_pdf [''gs'' \<mapsto> Runs garbling_gs] example_fs ''/home/u/doc.pdf'' ''/home/u/small.pdf''
     ''ebook'' =
     (Inl UnicodeDecodeError,
      example_fs\<lparr>files := (files example_fs)(''/home/u/small.pdf'' \<mapsto> Other ''compressed'')\<rparr>) \<and>
   compress_pdf [''gs'' \<mapsto> Runs garbling_failing_gs] example_fs ''/home/u/doc.pdf''
     ''/home/u/small.pdf'' ''ebook'' =
     (Inl UnicodeDecodeError, example_fs)"
  by (simp add: compress_pdf_def compress_command_def subprocess_run_def garbling_gs_def
      garbling_failing_gs_def)

text \<open>
  Claim C8. When no program is found under the name \<^verbatim>\<open>gs\<close>, \<^verbatim>\<open>compress_pdf\<close> returns the
  failure that names Ghostscript as missing, a message that no other outcome of the
  operation has, and the file system is unchanged: nothing is written to the output path.
\<close>

theorem compress_pdf_tool_missing:
  assumes "search_path ''gs'' = None"
  shows "compress_pdf search_path fs input_path output_path preset =
           (Inr (False, ''Error: Ghostscript (gs) is not installed or not in your PATH.''), fs) \<and>
         ''Error: Ghostscript (gs) is not installed or not in your PATH.'' \<noteq>
           ''Ghostscript failed: '' @ stderr \<and>
         ''Error: Ghostscript (gs) is not installed or not in your PATH.'' \<noteq>
           ''Compression successful.''"
  using assms by (simp add: compress_pdf_def compress_command_def subprocess_run_def)

text \<open>An empty search path.\<close>

theorem compress_pdf_tool_missing_witness:
  "compress_pdf Map.empty example_fs ''/home/u/doc.pdf'' ''/home/u/small.pdf'' ''ebook'' =
     (Inr (False, ''Error: Ghostscript (gs) is not installed or not in your PATH.''), example_fs) \<and>
   files example_fs ''/home/u/small.pdf'' = None"
proof -
  have "Map.empty ''gs'' = None" by simp
  from compress_pdf_tool_missing [OF this, of example_fs "''/home/u/doc.pdf''" "''/home/u/small.pdf''" "''ebook''" "[]"]
  show ?thesis by (simp add: example_fs_def)
qed

section \<open>Properties of the page grid\<close>

lemmas window_simps =
  run_events_def on_drop_def is_pdf_path_def endswith_def lower_char_def handle_files_def
  falsy_def on_file_selected_def load_pdf_for_reordering_def PdfReader_def reader_pages_def
  clear_reorder_view_def update_ui_state_def init_window_def PdfPageWidget_def
  os_path_basename_def add_toast_def set_processing_state_def start_thread_def
  show_dialog_def accept_dialog_def on_reorder_clicked_def on_compress_clicked_def
  run_reorder_task_def run_compress_task_def new_order_indices_def page_on_drop_def
  flow_box_remove_def flow_box_insert_def toggle_deleted_def click_delete_button_def
  on_delete_toggled_def Let_def

lemma upt4: "[0..<4] = [0, 1, 2, 3]"
  by (simp add: upt_rec)

lemma loaded_four_eq:
  "loaded_four =
     (four_fs,
      init_window\<lparr>selected_pdf := Some ''/home/u/four.pdf'',
        reorder_source_path := Some ''/home/u/four.pdf'',
        merge_list_box := [''/home/u/four.pdf''],
        reorder_flow_box := map PdfPageWidget [0, 1, 2, 3],
        reorder_subtitle := ''Reordering pages for: four.pdf'',
        main_stack := ''content'',
        compress_button := True, split_button := True, reorder_button := True,
        clear_button := True\<rparr>)"
  by (simp add: loaded_four_def four_fs_def window_simps upt4)

text \<open>
  Claim C2. A four-page document is loaded: the entries have the original indices
  \<open>[0, 1, 2, 3]\<close>, none deleted. Dropping the entry at position 3 on the entry at position 0
  gives the order \<open>[3, 0, 1, 2]\<close>; toggling the delete button at position 2 (the entry with
  original index 1) makes the list comprehension of \<^verbatim>\<open>_run_reorder_task\<close> give \<open>[3, 0, 2]\<close>;
  and that list is the order with which the started thread calls \<^verbatim>\<open>_reorder_pdf_pages\<close>,
  which writes the pages P3, P0, P2.
\<close>

theorem resolve_after_move_and_delete:
  "map original_page_index (reorder_flow_box (snd loaded_four)) = [0, 1, 2, 3] \<and>
   map is_deleted (reorder_flow_box (snd loaded_four)) = [False, False, False, False] \<and>
   map original_page_index (page_on_drop (reorder_flow_box (snd loaded_four)) 3 0) = [3, 0, 1, 2] \<and>
   new_order_indices (toggle_deleted (page_on_drop (reorder_flow_box (snd loaded_four)) 3 0) 2)
     = [3, 0, 2] \<and>
   threads (snd (run_events Map.empty loaded_four
      [Drag_page 3 0, Toggle_delete 2, Click_reorder, Accept 0 ''/home/u/out.pdf'']))
     = [Reorder_task (Some ''/home/u/four.pdf'') ''/home/u/out.pdf'' [3, 0, 2]] \<and>
   run_task Map.empty four_fs (Reorder_task (Some ''/home/u/four.pdf'') ''/home/u/out.pdf'' [3, 0, 2])
     = apfst Inr (reorder_pdf_pages four_fs ''/home/u/four.pdf'' ''/home/u/out.pdf'' [3, 0, 2]) \<and>
   reorder_pdf_pages four_fs ''/home/u/four.pdf'' ''/home/u/out.pdf'' [3, 0, 2]
     = ((True, ''Successfully reordered pages.''),
        four_fs\<lparr>files := (files four_fs)(''/home/u/out.pdf'' \<mapsto> written [''P3'', ''P0'', ''P2''])\<rparr>)"
proof -
  have a: "map original_page_index (reorder_flow_box (snd loaded_four)) = [0, 1, 2, 3]"
    by (simp add: loaded_four_eq PdfPageWidget_def)
  have b: "map is_deleted (reorder_flow_box (snd loaded_four)) = [False, False, False, False]"
    by (simp add: loaded_four_eq PdfPageWidget_def)
  have c: "map original_page_index (page_on_drop (reorder_flow_box (snd loaded_four)) 3 0)
             = [3, 0, 1, 2]"
    by (simp add: loaded_four_eq PdfPageWidget_def page_on_drop_def flow_box_remove_def
        flow_box_insert_def)
  have d: "new_order_indices
             (toggle_deleted (page_on_drop (reorder_flow_box (snd loaded_four)) 3 0) 2)
             = [3, 0, 2]"
    by (simp add: loaded_four_eq PdfPageWidget_def page_on_drop_def flow_box_remove_def
        flow_box_insert_def toggle_deleted_def click_delete_button_def on_delete_toggled_def
        new_order_indices_def)
  have e: "threads (snd (run_events Map.empty loaded_four
      [Drag_page 3 0, Toggle_delete 2, Click_reorder, Accept 0 ''/home/u/out.pdf'']))
     = [Reorder_task (Some ''/home/u/four.pdf'') ''/home/u/out.pdf'' [3, 0, 2]]"
    by (simp add: loaded_four_eq window_simps)
  have f: "run_task Map.empty four_fs
             (Reorder_task (Some ''/home/u/four.pdf'') ''/home/u/out.pdf'' [3, 0, 2])
           = apfst Inr
               (reorder_pdf_pages four_fs ''/home/u/four.pdf'' ''/home/u/out.pdf'' [3, 0, 2])"
    by simp
  have g: "reorder_pdf_pages four_fs ''/home/u/four.pdf'' ''/home/u/out.pdf'' [3, 0, 2]
     = ((True, ''Successfully reordered pages.''),
        four_fs\<lparr>files := (files four_fs)(''/home/u/out.pdf'' \<mapsto> written [''P3'', ''P0'', ''P2''])\<rparr>)"
    by (simp add: reorder_pdf_pages_def four_fs_def PdfReader_def getitem_def reader_pages_def
        write_pdf_def)
  from a b c d e f g show ?thesis by blast
qed

section \<open>Properties of loading a document for reordering\<close>

text \<open>
  Claim C9, as stated, says that loading fails with an empty-document signal for every
  document with zero pages and that the reorder source is then not set. In \<^verbatim>\<open>IAtePDFs.py\<close>
  a document without pages is loaded without any message and becomes the reorder source.
\<close>

theorem load_zero_pages_counterexample:
  "toasts (load_pdf_for_reordering odd_fs init_window ''/home/u/empty.pdf'') = [] \<and>
   reorder_source_path (load_pdf_for_reordering odd_fs init_window ''/home/u/empty.pdf'') =
     Some ''/home/u/empty.pdf''"
  by (simp add: load_pdf_for_reordering_def odd_fs_def PdfReader_def reader_pages_def
      init_window_def clear_reorder_view_def)

text \<open>
  Claim C9, amended. In both variants, loading an encrypted document adds the toast that
  says so and changes nothing else: no page widgets are made and the reorder source stays
  what it was. In \<^verbatim>\<open>gtk4IatePDFs.py\<close>, loading an unencrypted document with zero pages adds
  the toast \<^verbatim>\<open>PDF is empty or cannot be read.\<close> and changes nothing else.
\<close>

theorem load_refuses_encrypted_and_empty:
  assumes "PdfReader fs file_path = Inr d"
  shows "(is_encrypted d \<longrightarrow>
            load_pdf_for_reordering fs w file_path = add_toast w ''Cannot load encrypted PDF.'' \<and>
            reorder_flow_box (load_pdf_for_reordering fs w file_path) = reorder_flow_box w \<and>
            reorder_source_path (load_pdf_for_reordering fs w file_path) = reorder_source_path w \<and>
            gtk4_load_pdf_for_reordering fs w4 file_path =
              gtk4_add_toast w4 ''Could not load: The PDF is encrypted.'' \<and>
            gtk4_reorder_flow_box (gtk4_load_pdf_for_reordering fs w4 file_path) =
              gtk4_reorder_flow_box w4 \<and>
            gtk4_reorder_source_path (gtk4_load_pdf_for_reordering fs w4 file_path) =
              gtk4_reorder_source_path w4) \<and>
         (\<not> is_encrypted d \<and> pages d = [] \<longrightarrow>
            gtk4_load_pdf_for_reordering fs w4 file_path =
              gtk4_add_toast w4 ''PDF is empty or cannot be read.'' \<and>
            gtk4_reorder_flow_box (gtk4_load_pdf_for_reordering fs w4 file_path) =
              gtk4_reorder_flow_box w4 \<and>
            gtk4_reorder_source_path (gtk4_load_pdf_for_reordering fs w4 file_path) =
              gtk4_reorder_source_path w4)"
  using assms
  by (simp add: load_pdf_for_reordering_def gtk4_load_pdf_for_reordering_def add_toast_def
      gtk4_add_toast_def reader_pages_def)

theorem load_refuses_encrypted_and_empty_witness:
  "load_pdf_for_reordering odd_fs (snd loaded_four) ''/home/u/locked.pdf'' =
     add_toast (snd loaded_four) ''Cannot load encrypted PDF.'' \<and>
   reorder_source_path (load_pdf_for_reordering odd_fs (snd loaded_four) ''/home/u/locked.pdf'') =
     Some ''/home/u/four.pdf'' \<and>
   gtk4_load_pdf_for_reordering odd_fs gtk4_loaded ''/home/u/locked.pdf'' =
     gtk4_add_toast gtk4_loaded ''Could not load: The PDF is encrypted.'' \<and>
   gtk4_load_pdf_for_reordering odd_fs gtk4_loaded ''/home/u/empty.pdf'' =
     gtk4_add_toast gtk4_loaded ''PDF is empty or cannot be read.'' \<and>
   gtk4_reorder_flow_box (gtk4_load_pdf_for_reordering odd_fs gtk4_loaded ''/home/u/empty.pdf'') =
     [0, 1, 2] \<and>
   gtk4_reorder_source_path (gtk4_load_pdf_for_reordering odd_fs gtk4_loaded ''/home/u/empty.pdf'') =
     Some ''/home/u/doc.pdf''"
proof -
  have l: "PdfReader odd_fs ''/home/u/locked.pdf'' =
             Inr \<lparr>pages = [''L0'', ''L1''], is_encrypted = True, decrypted = False\<rparr>"
    by (simp add: PdfReader_def odd_fs_def)
  have e: "PdfReader odd_fs ''/home/u/empty.pdf'' =
             Inr \<lparr>pages = [], is_encrypted = False, decrypted = False\<rparr>"
    by (simp add: PdfReader_def odd_fs_def)
  from load_refuses_encrypted_and_empty [OF l, of "snd loaded_four" gtk4_loaded]
       load_refuses_encrypted_and_empty [OF e, of "snd loaded_four" gtk4_loaded]
  show ?thesis
    by (simp add: loaded_four_eq gtk4_loaded_def add_toast_def gtk4_add_toast_def init_window_def)
qed

section \<open>Properties of the task runner\<close>

text \<open>
  Claim C6 says that at most one operation runs at a time, that a second start while
  \<^verbatim>\<open>is_processing\<close> is true is rejected with the signal that a task is in progress, and
  that every started operation returns to idle once. The window attempts this: the buttons
  are insensitive while \<^verbatim>\<open>is_processing\<close> is true, and \<^verbatim>\<open>_on_drop\<close> refuses a drop with the
  toast. The \<^verbatim>\<open>_run_*_task\<close> methods, however, do not test \<^verbatim>\<open>is_processing\<close>. With the
  four-page document loaded, two clicks on the compress button open two save dialogs while
  the window is idle. After the first is accepted a task is in progress, and a drop is
  refused with the toast; accepting the second dialog all the same starts a second thread,
  with no such toast; and when the first thread reports, \<^verbatim>\<open>is_processing\<close> is false while
  the second is still running. And when the operation of a thread raises (a Ghostscript
  whose standard error does not decode), the thread ends without reporting and
  \<^verbatim>\<open>is_processing\<close> stays true with no thread left.
\<close>

theorem second_start_not_refused:
  "is_processing (snd (run_events Map.empty loaded_four
      [Click_compress, Click_compress, Accept 0 ''/home/u/a.pdf''])) \<and>
   toasts (snd (run_events Map.empty loaded_four
      [Click_compress, Click_compress, Accept 0 ''/home/u/a.pdf'',
       Drop [Some ''/home/u/doc.pdf'']]))
     = [''Compressing PDF...'', ''A task is already in progress.''] \<and>
   threads (snd (run_events Map.empty loaded_four
      [Click_compress, Click_compress, Accept 0 ''/home/u/a.pdf'', Accept 0 ''/home/u/b.pdf'']))
     = [Compress_task ''/home/u/four.pdf'' ''/home/u/a.pdf'' ''ebook'',
        Compress_task ''/home/u/four.pdf'' ''/home/u/b.pdf'' ''ebook''] \<and>
   toasts (snd (run_events Map.empty loaded_four
      [Click_compress, Click_compress, Accept 0 ''/home/u/a.pdf'', Accept 0 ''/home/u/b.pdf'']))
     = [''Compressing PDF...'', ''Compressing PDF...''] \<and>
   \<not> is_processing (snd (run_events Map.empty loaded_four
      [Click_compress, Click_compress, Accept 0 ''/home/u/a.pdf'', Accept 0 ''/home/u/b.pdf'',
       Thread_done 0])) \<and>
   threads (snd (run_events Map.empty loaded_four
      [Click_compress, Click_compress, Accept 0 ''/home/u/a.pdf'', Accept 0 ''/home/u/b.pdf'',
       Thread_done 0]))
     = [Compress_task ''/home/u/four.pdf'' ''/home/u/b.pdf'' ''ebook''] \<and>
   is_processing (snd (run_events [''gs'' \<mapsto> Runs garbling_gs] loaded_four
      [Click_compress, Accept 0 ''/home/u/a.pdf'', Thread_done 0])) \<and>
   threads (snd (run_events [''gs'' \<mapsto> Runs garbling_gs] loaded_four
      [Click_compress, Accept 0 ''/home/u/a.pdf'', Thread_done 0])) = [] \<and>
   toasts (snd (run_events [''gs'' \<mapsto> Runs garbling_gs] loaded_four
      [Click_compress, Accept 0 ''/home/u/a.pdf'', Thread_done 0])) = [''Compressing PDF...'']"
proof -
  have a: "is_processing (snd (run_events Map.empty loaded_four
      [Click_compress, Click_compress, Accept 0 ''/home/u/a.pdf'']))"
    by (simp add: loaded_four_eq window_simps)
  have b: "toasts (snd (run_events Map.empty loaded_four
      [Click_compress, Click_compress, Accept 0 ''/home/u/a.pdf'',
       Drop [Some ''/home/u/doc.pdf'']]))
     = [''Compressing PDF...'', ''A task is already in progress.'']"
    by (simp add: loaded_four_eq window_simps)
  have c: "threads (snd (run_events Map.empty loaded_four
      [Click_compress, Click_compress, Accept 0 ''/home/u/a.pdf'', Accept 0 ''/home/u/b.pdf'']))
     = [Compress_task ''/home/u/four.pdf'' ''/home/u/a.pdf'' ''ebook'',
        Compress_task ''/home/u/four.pdf'' ''/home/u/b.pdf'' ''ebook'']"
    by (simp add: loaded_four_eq window_simps)
  have d: "toasts (snd (run_events Map.empty loaded_four
      [Click_compress, Click_compress, Accept 0 ''/home/u/a.pdf'', Accept 0 ''/home/u/b.pdf'']))
     = [''Compressing PDF...'', ''Compressing PDF...'']"
    by (simp add: loaded_four_eq window_simps)
  have e: "\<not> is_processing (snd (run_events Map.empty loaded_four
      [Click_compress, Click_compress, Accept 0 ''/home/u/a.pdf'', Accept 0 ''/home/u/b.pdf'',
       Thread_done 0]))"
    by (simp add: loaded_four_eq window_simps thread_done_def on_task_finished_def
        compress_pdf_def subprocess_run_def compress_command_def)
  have f: "threads (snd (run_events Map.empty loaded_four
      [Click_compress, Click_compress, Accept 0 ''/home/u/a.pdf'', Accept 0 ''/home/u/b.pdf'',
       Thread_done 0]))
     = [Compress_task ''/home/u/four.pdf'' ''/home/u/b.pdf'' ''ebook'']"
    by (simp add: loaded_four_eq window_simps thread_done_def on_task_finished_def
        compress_pdf_def subprocess_run_def compress_command_def)
  have g: "is_processing (snd (run_events [''gs'' \<mapsto> Runs garbling_gs] loaded_four
      [Click_compress, Accept 0 ''/home/u/a.pdf'', Thread_done 0]))"
    by (simp add: loaded_four_eq window_simps thread_done_def on_task_finished_def
        compress_pdf_def subprocess_run_def compress_command_def garbling_gs_def)
  have h: "threads (snd (run_events [''gs'' \<mapsto> Runs garbling_gs] loaded_four
      [Click_compress, Accept 0 ''/home/u/a.pdf'', Thread_done 0])) = []"
    by (simp add: loaded_four_eq window_simps thread_done_def on_task_finished_def
        compress_pdf_def subprocess_run_def compress_command_def garbling_gs_def)
  have i: "toasts (snd (run_events [''gs'' \<mapsto> Runs garbling_gs] loaded_four
      [Click_compress, Accept 0 ''/home/u/a.pdf'', Thread_done 0])) = [''Compressing PDF...'']"
    by (simp add: loaded_four_eq window_simps thread_done_def on_task_finished_def
        compress_pdf_def subprocess_run_def compress_command_def garbling_gs_def)
  from a b c d e f g h i show ?thesis by blast
qed

section \<open>Properties of splitting\<close>

lemma str_nat_nonempty: "str_nat n \<noteq> []"
  by (subst str_nat.simps) simp

lemma digit_inj:
  assumes "a < 10" and "b < 10" and "''0123456789'' ! a = ''0123456789'' ! b"
  shows "a = b"
proof -
  have "distinct ''0123456789''" by simp
  moreover have "a < length ''0123456789''" "b < length ''0123456789''"
    using assms by simp_all
  ultimately show ?thesis using assms(3) by (simp only: nth_eq_iff_index_eq)
qed

lemma str_nat_inj: "str_nat n = str_nat m \<Longrightarrow> n = m"
proof (induction n arbitrary: m rule: str_nat.induct)
  case (1 n)
  show ?case
  proof (cases "n < 10")
    case n: True
    show ?thesis
    proof (cases "m < 10")
      case True
      with n "1.prems" have "''0123456789'' ! n = ''0123456789'' ! m"
        by (subst (asm) str_nat.simps, subst (asm) (2) str_nat.simps) simp
      with n True show ?thesis by (rule digit_inj)
    next
      case False
      then have "str_nat m = str_nat (m div 10) @ [''0123456789'' ! (m mod 10)]"
        by (subst str_nat.simps) simp
      moreover from n have "str_nat n = [''0123456789'' ! n]"
        by (subst str_nat.simps) simp
      ultimately have "str_nat (m div 10) = []" using "1.prems" by simp
      with str_nat_nonempty show ?thesis by blast
    qed
  next
    case n: False
    then have sn: "str_nat n = str_nat (n div 10) @ [''0123456789'' ! (n mod 10)]"
      by (subst str_nat.simps) simp
    show ?thesis
    proof (cases "m < 10")
      case True
      then have "str_nat m = [''0123456789'' ! m]"
        by (subst str_nat.simps) simp
      with sn "1.prems" have "str_nat (n div 10) = []" by simp
      with str_nat_nonempty show ?thesis by blast
    next
      case False
      then have sm: "str_nat m = str_nat (m div 10) @ [''0123456789'' ! (m mod 10)]"
        by (subst str_nat.simps) simp
      from sn sm "1.prems"
      have eq: "str_nat (n div 10) = str_nat (m div 10)"
        and d: "''0123456789'' ! (n mod 10) = ''0123456789'' ! (m mod 10)"
        by simp_all
      from "1.IH" [OF n eq] have "n div 10 = m div 10" .
      moreover have "n mod 10 = m mod 10"
        by (rule digit_inj [OF _ _ d]) simp_all
      ultimately show ?thesis by (metis div_mult_mod_eq)
    qed
  qed
qed

lemma page_file_inj:
  assumes "page_file output_dir base_name i = page_file output_dir base_name j"
  shows "i = j"
proof -
  let ?b = "\<lambda>k. base_name @ ''_page_'' @ str_nat (k + 1) @ ''.pdf''"
  have hd_b: "hd (?b k) = hd (base_name @ ''_'')" for k
    by (cases base_name) simp_all
  have ne: "?b k \<noteq> []" for k by simp
  have "\<exists>pre. \<forall>k. page_file output_dir base_name k = pre @ str_nat (k + 1) @ ''.pdf''"
  proof (cases "hd (base_name @ ''_'') = CHR ''/''")
    case True
    then have "\<forall>k. page_file output_dir base_name k =
                 (base_name @ ''_page_'') @ str_nat (k + 1) @ ''.pdf''"
      using hd_b ne by (simp add: page_file_def os_path_join_def)
    then show ?thesis by blast
  next
    case False
    show ?thesis
    proof (cases "output_dir = [] \<or> last output_dir = CHR ''/''")
      case True
      with False have "\<forall>k. page_file output_dir base_name k =
                 (output_dir @ base_name @ ''_page_'') @ str_nat (k + 1) @ ''.pdf''"
        using hd_b ne by (simp add: page_file_def os_path_join_def)
      then show ?thesis by blast
    next
      case nj: False
      with False have "\<forall>k. page_file output_dir base_name k =
                 (output_dir @ ''/'' @ base_name @ ''_page_'') @ str_nat (k + 1) @ ''.pdf''"
        using hd_b ne by (simp add: page_file_def os_path_join_def)
      then show ?thesis by blast
    qed
  qed
  then obtain pre where "\<forall>k. page_file output_dir base_name k = pre @ str_nat (k + 1) @ ''.pdf''"
    by blast
  with assms have "str_nat (i + 1) = str_nat (j + 1)" by simp
  then have "i + 1 = j + 1" by (rule str_nat_inj)
  then show ?thesis by simp
qed

lemma split_pages_writes:
  assumes "\<forall>k<length ps. page_file output_dir base_name (i + k) \<notin> denied fs"
  shows "fst (split_pages fs output_dir base_name i ps) = None \<and>
         dirs (snd (split_pages fs output_dir base_name i ps)) = dirs fs \<and>
         denied (snd (split_pages fs output_dir base_name i ps)) = denied fs \<and>
         (\<forall>k<length ps. files (snd (split_pages fs output_dir base_name i ps))
                           (page_file output_dir base_name (i + k)) = Some (written [ps ! k])) \<and>
         (\<forall>q. (\<forall>k<length ps. q \<noteq> page_file output_dir base_name (i + k)) \<longrightarrow>
               files (snd (split_pages fs output_dir base_name i ps)) q = files fs q)"
  using assms
proof (induction ps arbitrary: fs i)
  case Nil
  then show ?case by simp
next
  case (Cons p ps)
  let ?f = "page_file output_dir base_name"
  define fs1 where "fs1 = fs\<lparr>files := (files fs)(?f i \<mapsto> written [p])\<rparr>"
  from Cons.prems have nd: "?f i \<notin> denied fs" by force
  then have w: "write_pdf fs (?f i) [p] = Inr fs1"
    by (simp add: write_pdf_def fs1_def)
  then have sp: "split_pages fs output_dir base_name i (p # ps) =
                   split_pages fs1 output_dir base_name (i + 1) ps"
    by simp
  have "\<forall>k<length ps. ?f (i + 1 + k) \<notin> denied fs1"
  proof (intro allI impI)
    fix k assume "k < length ps"
    then have "Suc k < length (p # ps)" by simp
    with Cons.prems have "?f (i + Suc k) \<notin> denied fs" by blast
    then show "?f (i + 1 + k) \<notin> denied fs1" by (simp add: fs1_def)
  qed
  from Cons.IH [OF this]
  have ih1: "fst (split_pages fs1 output_dir base_name (i + 1) ps) = None"
    and ih2: "dirs (snd (split_pages fs1 output_dir base_name (i + 1) ps)) = dirs fs1"
    and ih3: "denied (snd (split_pages fs1 output_dir base_name (i + 1) ps)) = denied fs1"
    and ih4: "\<And>k. k < length ps \<Longrightarrow>
                files (snd (split_pages fs1 output_dir base_name (i + 1) ps)) (?f (i + 1 + k))
                  = Some (written [ps ! k])"
    and ih5: "\<And>q. (\<forall>k<length ps. q \<noteq> ?f (i + 1 + k)) \<Longrightarrow>
                files (snd (split_pages fs1 output_dir base_name (i + 1) ps)) q = files fs1 q"
    by blast+
  have first: "files (snd (split_pages fs1 output_dir base_name (i + 1) ps)) (?f i)
                 = Some (written [p])"
  proof -
    have "\<forall>k<length ps. ?f i \<noteq> ?f (i + 1 + k)"
      using page_file_inj [of output_dir base_name i] by fastforce
    from ih5 [OF this] show ?thesis by (simp add: fs1_def)
  qed
  have written_all: "\<forall>k<length (p # ps).
          files (snd (split_pages fs1 output_dir base_name (i + 1) ps)) (?f (i + k))
            = Some (written [(p # ps) ! k])"
  proof (intro allI impI)
    fix k assume k: "k < length (p # ps)"
    show "files (snd (split_pages fs1 output_dir base_name (i + 1) ps)) (?f (i + k))
            = Some (written [(p # ps) ! k])"
    proof (cases k)
      case 0
      with first show ?thesis by simp
    next
      case (Suc k')
      with k have "k' < length ps" by simp
      from ih4 [OF this] Suc show ?thesis by simp
    qed
  qed
  have others: "\<forall>q. (\<forall>k<length (p # ps). q \<noteq> ?f (i + k)) \<longrightarrow>
          files (snd (split_pages fs1 output_dir base_name (i + 1) ps)) q = files fs q"
  proof (intro allI impI)
    fix q assume q: "\<forall>k<length (p # ps). q \<noteq> ?f (i + k)"
    have "\<forall>k<length ps. q \<noteq> ?f (i + 1 + k)"
    proof (intro allI impI)
      fix k assume "k < length ps"
      then have "Suc k < length (p # ps)" by simp
      with q have "q \<noteq> ?f (i + Suc k)" by blast
      then show "q \<noteq> ?f (i + 1 + k)" by simp
    qed
    from ih5 [OF this]
    have "files (snd (split_pages fs1 output_dir base_name (i + 1) ps)) q = files fs1 q" .
    moreover from q have "q \<noteq> ?f i" by force
    ultimately show "files (snd (split_pages fs1 output_dir base_name (i + 1) ps)) q = files fs q"
      by (simp add: fs1_def)
  qed
  from ih1 ih2 ih3 written_all others show ?case
    unfolding sp by (simp add: fs1_def)
qed

text \<open>
  Claim C5. For a readable, unencrypted document with \<open>N\<close> pages, \<^verbatim>\<open>_split_pdf\<close> succeeds
  with the message that reports the count \<open>N\<close>; it writes the \<open>N\<close> files
  \<^verbatim>\<open>os.path.join(output_dir, f"{base_name}_page_{i + 1}.pdf")\<close> for \<open>i = 0 .. N - 1\<close>, with
  \<^verbatim>\<open>base_name\<close> the stem of the input path; these are \<open>N\<close> different files, file \<open>i\<close> holds
  exactly the source page \<open>i\<close>, and no other file is touched; the output directory is there
  afterwards. The directory exists or can be made, and the output files can be opened for
  writing.
\<close>

theorem split_pdf_pages:
  assumes "PdfReader fs input_path = Inr d"
    and "\<not> is_encrypted d"
    and "output_dir \<in> dirs fs \<or> files fs output_dir = None \<and> output_dir \<notin> denied fs"
    and "\<forall>i<length (pages d).
           os_path_join output_dir (stem input_path @ ''_page_'' @ str_nat (i + 1) @ ''.pdf'')
             \<notin> denied fs"
  shows "fst (split_pdf fs input_path output_dir) =
           (True, ''Successfully split into '' @ str_nat (length (pages d)) @ '' pages.'') \<and>
         (\<forall>i<length (pages d).
            files (snd (split_pdf fs input_path output_dir))
              (os_path_join output_dir (stem input_path @ ''_page_'' @ str_nat (i + 1) @ ''.pdf''))
            = Some (written [pages d ! i])) \<and>
         (\<forall>q. (\<forall>i<length (pages d).
                  q \<noteq> os_path_join output_dir
                         (stem input_path @ ''_page_'' @ str_nat (i + 1) @ ''.pdf''))
               \<longrightarrow> files (snd (split_pdf fs input_path output_dir)) q = files fs q) \<and>
         card ((\<lambda>i. os_path_join output_dir
                      (stem input_path @ ''_page_'' @ str_nat (i + 1) @ ''.pdf''))
               ` {..<length (pages d)}) = length (pages d) \<and>
         dirs (snd (split_pdf fs input_path output_dir)) = insert output_dir (dirs fs)"
proof -
  let ?f = "page_file output_dir (stem input_path)"
  have f: "?f i = os_path_join output_dir (stem input_path @ ''_page_'' @ str_nat (i + 1) @ ''.pdf'')"
    for i by (simp add: page_file_def)
  define fs1 where "fs1 = (if output_dir \<in> dirs fs then fs
                           else fs\<lparr>dirs := insert output_dir (dirs fs)\<rparr>)"
  from assms(3) have mk: "makedirs fs output_dir = Inr fs1"
    by (auto simp: makedirs_def fs1_def)
  have fs1: "files fs1 = files fs" "denied fs1 = denied fs"
    "dirs fs1 = insert output_dir (dirs fs)"
    by (auto simp: fs1_def)
  from assms(2) have rp: "reader_pages d = Inr (pages d)"
    by (simp add: reader_pages_def)
  from assms(4) have "\<forall>k<length (pages d). ?f (0 + k) \<notin> denied fs1"
    by (simp add: f fs1)
  from split_pages_writes [OF this]
  have s1: "fst (split_pages fs1 output_dir (stem input_path) 0 (pages d)) = None"
    and s2: "dirs (snd (split_pages fs1 output_dir (stem input_path) 0 (pages d))) = dirs fs1"
    and s4: "\<forall>k<length (pages d).
               files (snd (split_pages fs1 output_dir (stem input_path) 0 (pages d))) (?f k)
                 = Some (written [pages d ! k])"
    and s5: "\<forall>q. (\<forall>k<length (pages d). q \<noteq> ?f k) \<longrightarrow>
               files (snd (split_pages fs1 output_dir (stem input_path) 0 (pages d))) q
                 = files fs1 q"
    by simp_all
  from s1 obtain fs2 where
    sp: "split_pages fs1 output_dir (stem input_path) 0 (pages d) = (None, fs2)"
    by (cases "split_pages fs1 output_dir (stem input_path) 0 (pages d)") simp
  from assms(1) mk rp sp
  have r: "split_pdf fs input_path output_dir =
             ((True, ''Successfully split into '' @ str_nat (length (pages d)) @ '' pages.''), fs2)"
    by (simp add: split_pdf_def)
  have "inj_on ?f {..<length (pages d)}"
    by (rule inj_onI) (rule page_file_inj)
  then have c: "card (?f ` {..<length (pages d)}) = length (pages d)"
    by (simp add: card_image)
  from r s2 s4 s5 c sp show ?thesis
    by (simp add: f fs1)
qed


lemma stem_doc: "stem ''/home/u/doc.pdf'' = ''doc''"
  by (simp add: stem_def path_name_def)

lemma page_file_doc:
  "os_path_join ''/home/u/pages'' (''doc'' @ ''_page_'' @ s @ ''.pdf'') =
     ''/home/u/pages/doc_page_'' @ s @ ''.pdf''"
  by (simp add: os_path_join_def)

text \<open>The three-page document split into a directory that is not there yet.\<close>

theorem split_pdf_pages_witness:
  "fst (split_pdf example_fs ''/home/u/doc.pdf'' ''/home/u/pages'') =
     (True, ''Successfully split into 3 pages.'') \<and>
   files (snd (split_pdf example_fs ''/home/u/doc.pdf'' ''/home/u/pages''))
     ''/home/u/pages/doc_page_1.pdf'' = Some (written [''page A'']) \<and>
   files (snd (split_pdf example_fs ''/home/u/doc.pdf'' ''/home/u/pages''))
     ''/home/u/pages/doc_page_2.pdf'' = Some (written [''page B'']) \<and>
   files (snd (split_pdf example_fs ''/home/u/doc.pdf'' ''/home/u/pages''))
     ''/home/u/pages/doc_page_3.pdf'' = Some (written [''page C'']) \<and>
   files (snd (split_pdf example_fs ''/home/u/doc.pdf'' ''/home/u/pages''))
     ''/home/u/doc.pdf'' = Some (Pdf example_doc) \<and>
   dirs (snd (split_pdf example_fs ''/home/u/doc.pdf'' ''/home/u/pages'')) =
     {''/home/u/pages'', ''/home/u''}"
proof -
  have r: "PdfReader example_fs ''/home/u/doc.pdf'' = Inr example_doc"
    by (simp add: PdfReader_def example_fs_def)
  have e: "\<not> is_encrypted example_doc" by (simp add: example_doc_def)
  have m: "''/home/u/pages'' \<in> dirs example_fs \<or>
           files example_fs ''/home/u/pages'' = None \<and> ''/home/u/pages'' \<notin> denied example_fs"
    by (simp add: example_fs_def)
  have w: "\<forall>i<length (pages example_doc).
             os_path_join ''/home/u/pages''
               (stem ''/home/u/doc.pdf'' @ ''_page_'' @ str_nat (i + 1) @ ''.pdf'')
             \<notin> denied example_fs"
    by (simp add: stem_doc os_path_join_def example_fs_def)
  note t = split_pdf_pages [OF r e m w, unfolded stem_doc page_file_doc]
  from t have msg: "fst (split_pdf example_fs ''/home/u/doc.pdf'' ''/home/u/pages'') =
     (True, ''Successfully split into 3 pages.'')"
    by (simp add: example_doc_def str_nat.simps)
  from t have pg: "\<And>i. i < 3 \<Longrightarrow>
      files (snd (split_pdf example_fs ''/home/u/doc.pdf'' ''/home/u/pages''))
        (''/home/u/pages/doc_page_'' @ str_nat (i + 1) @ ''.pdf'')
      = Some (written [pages example_doc ! i])"
    by (simp add: example_doc_def)
  from pg [of 0] pg [of 1] pg [of 2]
  have p123: "files (snd (split_pdf example_fs ''/home/u/doc.pdf'' ''/home/u/pages''))
     ''/home/u/pages/doc_page_1.pdf'' = Some (written [''page A''])"
    "files (snd (split_pdf example_fs ''/home/u/doc.pdf'' ''/home/u/pages''))
     ''/home/u/pages/doc_page_2.pdf'' = Some (written [''page B''])"
    "files (snd (split_pdf example_fs ''/home/u/doc.pdf'' ''/home/u/pages''))
     ''/home/u/pages/doc_page_3.pdf'' = Some (written [''page C''])"
    by (simp_all add: example_doc_def str_nat.simps)
  from t have oth: "\<And>q. (\<forall>i<length (pages example_doc).
        q \<noteq> ''/home/u/pages/doc_page_'' @ str_nat (i + 1) @ ''.pdf'') \<Longrightarrow>
      files (snd (split_pdf example_fs ''/home/u/doc.pdf'' ''/home/u/pages'')) q
        = files example_fs q"
    by blast
  have src: "files (snd (split_pdf example_fs ''/home/u/doc.pdf'' ''/home/u/pages''))
     ''/home/u/doc.pdf'' = Some (Pdf example_doc)"
    by (subst oth) (simp_all add: example_fs_def)
  from t have d: "dirs (snd (split_pdf example_fs ''/home/u/doc.pdf'' ''/home/u/pages'')) =
     {''/home/u/pages'', ''/home/u''}"
    by (simp add: example_fs_def)
  from msg p123 src d show ?thesis by blast
qed

end
